theory Spec2Isabelle
  imports Main "HOL-Library.Word"
begin

section \<open>The lazy concatenation chain of \<open>lazy_concat.cpp\<close>\<close>

text \<open>
  The class template \<open>lazy_concatenator<Tail...>\<close> has two forms: the base case
  \<open>lazy_concatenator<>\<close>, with no data member, and the general case
  \<open>lazy_concatenator<Head, Tail...>\<close>, which stores \<open>m_head\<close> and \<open>m_tail\<close> by value.
  Every chain the program builds has \<open>std::string\<close> heads, since both \<open>operator+\<close>
  take a \<open>const std::string &\<close>. A \<open>std::string\<close> is a byte sequence, here a
  \<open>string\<close>, and its \<open>size()\<close> is the length of that list.

  Integer widths are those of an LP64 platform: \<open>int\<close> has 32 bits, \<open>std::size_t\<close>
  has 64 bits, and a conversion to a narrower integer keeps the low bits.
\<close>

datatype lazy_concatenator =
    Empty
  | Node (m_head: string) (m_tail: lazy_concatenator)

datatype error =
    Alloc_error      \<comment> \<open>\<open>std::length_error\<close> or \<open>std::bad_alloc\<close> thrown by the string constructor\<close>
  | Out_of_bounds    \<comment> \<open>a write through an iterator outside the destination buffer\<close>
  | Ill_formed       \<comment> \<open>the expression does not compile: the class has no such member\<close>

subsection \<open>\<open>size\<close>\<close>

text \<open>
  \<open>int size() const { return m_head.size() + m_tail.size(); }\<close> in the general case and
  \<open>return 0;\<close> in the base case. The sum is computed in \<open>std::size_t\<close>: the
  \<open>int\<close> of the tail is converted to 64 bits with its sign, added to the head's
  size modulo \<open>2 ^ 64\<close>, and the result is narrowed to the 32 bits of the return type.
  The returned \<open>int\<close> is read with \<open>sint\<close>.
\<close>

fun size_lc :: "lazy_concatenator \<Rightarrow> 32 word" where
  "size_lc Empty = 0"
| "size_lc (Node h t) = ucast ((word_of_nat (length h) :: 64 word) + scast (size_lc t))"

subsection \<open>\<open>save\<close>\<close>

text \<open>
  The destination is a buffer of bytes and an iterator into it is an offset from the
  start of the buffer, so \<open>result.end()\<close> is the length of the buffer.
  \<open>std::copy(first, last, d)\<close> assigns the source elements one after the other through
  \<open>d\<close>, \<open>d + 1\<close>, ...; an assignment outside the buffer has no defined behaviour
  and is the error \<open>Out_of_bounds\<close>.
\<close>

fun std_copy :: "string \<Rightarrow> int \<Rightarrow> string \<Rightarrow> error + string" where
  "std_copy [] d buf = Inr buf"
| "std_copy (c # cs) d buf =
     (if 0 \<le> d \<and> d < int (length buf)
      then std_copy cs (d + 1) (buf[nat d := c])
      else Inl Out_of_bounds)"

text \<open>
  \<open>auto begin = end - m_head.size(); std::copy(m_head.begin(), m_head.end(), begin);
  m_tail.save(begin);\<close> in the general case; the base case has an empty body.
  The size of a \<open>std::string\<close> is below \<open>2 ^ 63\<close>, so its conversion to the
  iterator's difference type is exact.
\<close>

fun save :: "lazy_concatenator \<Rightarrow> int \<Rightarrow> string \<Rightarrow> error + string" where
  "save Empty e buf = Inr buf"
| "save (Node h t) e buf =
     (let bgn = e - int (length h)
      in case std_copy h bgn buf of
           Inl err \<Rightarrow> Inl err
         | Inr buf' \<Rightarrow> save t bgn buf')"

subsection \<open>\<open>operator+\<close>\<close>

text \<open>
  \<open>return lazy_concatenator<std::string, Head, Tail...>(other, *this);\<close> in both cases;
  the constructor copies its two arguments into \<open>m_head\<close> and \<open>m_tail\<close>.
  The model returns the receiver as it is after the call together with the new chain.
\<close>

definition op_plus_call :: "lazy_concatenator \<Rightarrow> string \<Rightarrow> lazy_concatenator \<times> lazy_concatenator" where
  "op_plus_call this other = (this, Node other this)"

definition op_plus :: "lazy_concatenator \<Rightarrow> string \<Rightarrow> lazy_concatenator" where
  "op_plus this other = snd (op_plus_call this other)"

text \<open>\<open>LAZY + f1 + f2 + ... + fn\<close>, as \<open>main\<close> builds its chains: \<open>+\<close> associates to the left.\<close>

definition appends :: "lazy_concatenator \<Rightarrow> string list \<Rightarrow> lazy_concatenator" where
  "appends c fs = foldl op_plus c fs"

subsection \<open>\<open>operator std::string\<close>\<close>

text \<open>
  \<open>std::string(count, ch)\<close> takes a \<open>size_type\<close> count. A count above the largest
  object size \<open>PTRDIFF_MAX\<close> cannot be allocated: the constructor throws.
  Smaller requests are taken to succeed.
\<close>

definition string_ctor :: "64 word \<Rightarrow> char \<Rightarrow> error + string" where
  "string_ctor count ch =
     (if 2 ^ 63 \<le> unat count then Inl Alloc_error else Inr (replicate (unat count) ch))"

text \<open>
  \<open>std::string result(size(), '\0'); save(result.end()); return result;\<close>
  The \<open>int\<close> returned by \<open>size()\<close> is converted to \<open>size_type\<close> with its sign.
  Only the general case declares the conversion: for \<open>lazy_concatenator<>\<close> the
  conversion to \<open>std::string\<close> does not compile.
\<close>

fun to_string :: "lazy_concatenator \<Rightarrow> error + string" where
  "to_string Empty = Inl Ill_formed"
| "to_string (Node h t) =
     (case string_ctor (scast (size_lc (Node h t))) (CHR 0x00) of
        Inl err \<Rightarrow> Inl err
      | Inr result \<Rightarrow> save (Node h t) (int (length result)) result)"

section \<open>Calls on a receiver\<close>

text \<open>
  A call of \<open>size()\<close> with the receiver made explicit: it returns the object as it is
  after the call together with the \<open>int\<close>. The general case calls \<open>m_tail.size()\<close>
  on its own member, which comes back from that call. \<open>size_calls k\<close> is \<open>k\<close> calls in
  a row on the same object, with the values they return.
\<close>

fun size_call :: "lazy_concatenator \<Rightarrow> lazy_concatenator \<times> 32 word" where
  "size_call Empty = (Empty, 0)"
| "size_call (Node h t) =
     (case size_call t of
        (t', n) \<Rightarrow> (Node h t', ucast ((word_of_nat (length h) :: 64 word) + scast n)))"

fun size_calls :: "nat \<Rightarrow> lazy_concatenator \<Rightarrow> lazy_concatenator \<times> 32 word list" where
  "size_calls 0 this = (this, [])"
| "size_calls (Suc k) this =
     (let (this', n) = size_call this;
          (this'', ns) = size_calls k this'
      in (this'', n # ns))"

subsection \<open>\<open>operator=\<close>\<close>

text \<open>
  The general case declares
  \<open>operator=(const lazy_concatenator &other) { m_head = other.m_head; m_tail = other.tail; }\<close>.
  The class has no member \<open>tail\<close> (the field is \<open>m_tail\<close>), so an assignment between
  two chains of the general case does not compile; the body also has no \<open>return\<close>.
  The base case has the assignment the compiler generates, which copies nothing.
  Chains of different template arguments are different types, with no assignment
  between them.
\<close>

fun assign :: "lazy_concatenator \<Rightarrow> lazy_concatenator \<Rightarrow> error + lazy_concatenator" where
  "assign Empty Empty = Inr Empty"
| "assign (Node h t) other = Inl Ill_formed"
| "assign Empty (Node h t) = Inl Ill_formed"


section \<open>What the chain stands for\<close>

text \<open>
  The fragments reachable by following the \<open>m_tail\<close> links down to the terminal
  chain, outermost (most recently appended) first; the sum of their byte lengths; and
  the left-to-right concatenation in the order of appending.
\<close>

fun fragments :: "lazy_concatenator \<Rightarrow> string list" where
  "fragments Empty = []"
| "fragments (Node h t) = h # fragments t"

definition total_length :: "lazy_concatenator \<Rightarrow> nat" where
  "total_length c = sum_list (map length (fragments c))"

definition content :: "lazy_concatenator \<Rightarrow> string" where
  "content c = concat (rev (fragments c))"

section \<open>Integer conversions\<close>

lemma ucast_add_scast:
  "(ucast ((word_of_nat n :: 64 word) + scast (w :: 32 word)) :: 32 word) = word_of_nat n + w"
proof -
  have wide: "(word_of_nat n :: 64 word) + scast w = word_of_int (int n + sint w)"
    by simp
  have narrow: "(ucast (word_of_int (int n + sint w) :: 64 word) :: 32 word)
      = word_of_int (int n + sint w)"
    by (rule ucast_down_wi) (simp add: is_down)
  show ?thesis by (simp only: wide narrow) simp
qed

lemma sint_of_nat_small: "n < 2 ^ 31 \<Longrightarrow> sint (word_of_nat n :: 32 word) = int n"
  by (simp add: signed_of_nat signed_take_bit_int_eq_self)

lemma unat_scast_small:
  assumes "n < 2 ^ 31"
  shows "unat (scast (word_of_nat n :: 32 word) :: 64 word) = n"
proof -
  have "(scast (word_of_nat n :: 32 word) :: 64 word)
      = word_of_int (sint (word_of_nat n :: 32 word))"
    by simp
  also have "\<dots> = word_of_nat n"
    using assms by (simp add: sint_of_nat_small)
  finally show ?thesis
    using assms by (simp add: unat_of_nat)
qed

section \<open>The size that is reported\<close>

lemma total_length_Node: "total_length (Node h t) = length h + total_length t"
  by (simp add: total_length_def)

lemma content_Node: "content (Node h t) = content t @ h"
  by (simp add: content_def)

lemma length_content: "length (content c) = total_length c"
  by (induction c) (simp_all add: content_def total_length_def)

text \<open>The \<open>int\<close> that \<open>size()\<close> returns is the total length modulo \<open>2 ^ 32\<close>.\<close>

lemma size_lc_total: "size_lc c = word_of_nat (total_length c)"
  by (induction c) (simp_all add: total_length_def ucast_add_scast)

lemma size_lc_no_overflow:
  "total_length c < 2 ^ 31 \<Longrightarrow> sint (size_lc c) = int (total_length c)"
  by (simp add: size_lc_total sint_of_nat_small)

lemma size_call_eq: "size_call c = (c, size_lc c)"
  by (induction c) simp_all

lemma size_lc_op_plus: "size_lc (op_plus c f) = size_lc c + word_of_nat (length f)"
  by (simp add: size_lc_total op_plus_def op_plus_call_def total_length_Node
      del: size_lc.simps)

section \<open>Copying into the buffer\<close>

lemma std_copy_length: "std_copy src d buf = Inr buf' \<Longrightarrow> length buf' = length buf"
  by (induction src arbitrary: d buf) (auto split: if_splits)

lemma std_copy_in_range:
  "0 \<le> d \<Longrightarrow> d + int (length src) \<le> int (length buf) \<Longrightarrow>
   std_copy src d buf = Inr (take (nat d) buf @ src @ drop (nat d + length src) buf)"
proof (induction src arbitrary: d buf)
  case Nil
  then show ?case by simp
next
  case (Cons c cs)
  let ?k = "nat d"
  from Cons.prems have k: "?k < length buf" by simp
  have d1: "nat (d + 1) = Suc ?k" using Cons.prems by simp
  have "std_copy (c # cs) d buf = std_copy cs (d + 1) (buf[?k := c])"
    using Cons.prems by simp
  also have "\<dots> = Inr (take (Suc ?k) (buf[?k := c]) @ cs
      @ drop (Suc ?k + length cs) (buf[?k := c]))"
    using Cons.IH [of "d + 1" "buf[?k := c]"] Cons.prems by (simp add: d1)
  also have "take (Suc ?k) (buf[?k := c]) = take ?k buf @ [c]"
    using k by (simp add: take_Suc_conv_app_nth)
  also have "drop (Suc ?k + length cs) (buf[?k := c]) = drop (?k + length (c # cs)) buf"
    by simp
  finally show ?case by simp
qed

lemma std_copy_below: "src \<noteq> [] \<Longrightarrow> d < 0 \<Longrightarrow> std_copy src d buf = Inl Out_of_bounds"
  by (cases src) simp_all

text \<open>
  When the \<open>total_length c\<close> bytes before \<open>e\<close> lie inside the buffer, \<open>save\<close> puts
  the content there, in the order of appending, and leaves every other byte as it was.
\<close>

lemma save_in_range:
  "int (total_length c) \<le> e \<Longrightarrow> e \<le> int (length buf) \<Longrightarrow>
   save c e buf = Inr (take (nat e - total_length c) buf @ content c @ drop (nat e) buf)"
proof (induction c arbitrary: e buf)
  case Empty
  then show ?case by (simp add: total_length_def content_def)
next
  case (Node h t)
  let ?b = "e - int (length h)"
  let ?mid = "take (nat ?b) buf @ h @ drop (nat e) buf"
  from Node.prems have b0: "0 \<le> ?b" and bt: "int (total_length t) \<le> ?b"
    by (simp_all add: total_length_Node)
  have nb: "nat ?b + length h = nat e" using b0 by simp
  have cp: "std_copy h ?b buf = Inr ?mid"
    using std_copy_in_range [of ?b h buf] b0 Node.prems(2) by (simp add: nb)
  have len: "length ?mid = length buf" using std_copy_length [OF cp] .
  have lt: "nat ?b \<le> length buf" using Node.prems(2) b0 by simp
  have "save (Node h t) e buf = save t ?b ?mid" by (simp add: cp Let_def)
  also have "\<dots> = Inr (take (nat ?b - total_length t) ?mid @ content t @ drop (nat ?b) ?mid)"
    using Node.IH [of ?b ?mid] bt Node.prems(2) len by simp
  also have "take (nat ?b - total_length t) ?mid = take (nat ?b - total_length t) buf"
    using lt by (simp add: min_def)
  also have "drop (nat ?b) ?mid = h @ drop (nat e) buf"
    using lt by simp
  also have "nat ?b - total_length t = nat e - total_length (Node h t)"
    using b0 by (simp add: total_length_Node nat_diff_distrib)
  finally show ?case by (simp add: content_Node)
qed

section \<open>Chains built by appending\<close>

lemma fragments_appends: "fragments (appends c fs) = rev fs @ fragments c"
  by (induction fs arbitrary: c) (simp_all add: appends_def op_plus_def op_plus_call_def)

lemma content_appends: "content (appends Empty fs) = concat fs"
  by (simp add: content_def fragments_appends)

lemma total_length_appends: "total_length (appends Empty fs) = sum_list (map length fs)"
  by (simp add: total_length_def fragments_appends rev_map [symmetric])

section \<open>Materialization\<close>

lemma to_string_small:
  assumes "total_length (Node h t) < 2 ^ 31"
  shows "to_string (Node h t) = Inr (content (Node h t))"
proof -
  let ?c = "Node h t" and ?n = "total_length (Node h t)"
  have "string_ctor (scast (size_lc ?c)) (CHR 0x00) = Inr (replicate ?n (CHR 0x00))"
    using assms unat_scast_small [of ?n]
    by (simp only: size_lc_total string_ctor_def) simp
  moreover have "save ?c (int ?n) (replicate ?n (CHR 0x00)) = Inr (content ?c)"
    using save_in_range [of ?c "int ?n" "replicate ?n (CHR 0x00)"] by simp
  ultimately show ?thesis by (simp del: size_lc.simps save.simps)
qed

text \<open>
  A chain of \<open>2 ^ 32 + 1\<close> bytes reports the size 1: the conversion allocates one byte
  and \<open>save\<close> writes before the start of the buffer.
\<close>

lemma to_string_underflow:
  "to_string (Node (replicate 4294967297 (CHR ''a'')) Empty) = Inl Out_of_bounds"
proof -
  let ?h = "replicate 4294967297 (CHR ''a'')"
  have sz: "size_lc (Node ?h Empty) = 1"
    by (simp add: size_lc_total total_length_def del: size_lc.simps)
  have ctor: "string_ctor (scast (1 :: 32 word)) (CHR 0x00) = Inr [CHR 0x00]"
    by (simp add: string_ctor_def)
  have "save (Node ?h Empty) 1 [CHR 0x00] = Inl Out_of_bounds"
    by (simp add: std_copy_below)
  then show ?thesis
    by (simp only: to_string.simps sz ctor) simp
qed

section \<open>The claims\<close>

text \<open>
  Claim C1, as amended. For every non-empty sequence of fragments whose byte lengths
  sum to at most \<open>2 ^ 31 - 1\<close>, appended in order to the empty chain, the conversion to
  a string returns the left-to-right concatenation of the fragments, and \<open>size()\<close>
  returns its length.
\<close>

theorem materialization_correct:
  assumes "fs \<noteq> []" and "sum_list (map length fs) < 2 ^ 31"
  shows "to_string (appends Empty fs) = Inr (concat fs) \<and>
         sint (size_lc (appends Empty fs)) = int (length (concat fs))"
proof -
  obtain h t where c: "appends Empty fs = Node h t"
    using assms(1) fragments_appends [of Empty fs] by (cases "appends Empty fs") auto
  have tl: "total_length (appends Empty fs) < 2 ^ 31"
    using assms(2) by (simp add: total_length_appends)
  have "to_string (appends Empty fs) = Inr (concat fs)"
    using to_string_small [of h t] tl c content_appends [of fs] by simp
  moreover have "sint (size_lc (appends Empty fs)) = int (length (concat fs))"
    using sint_of_nat_small [OF tl] length_content [of "appends Empty fs"]
    by (simp add: size_lc_total content_appends)
  ultimately show ?thesis by simp
qed

text \<open>
  The scenario of the specification: \<open>"Hello"\<close>, \<open>" "\<close>, \<open>"World"\<close> appended to the
  empty chain give the size 11 and the string \<open>"Hello World"\<close>.
\<close>

theorem materialization_correct_witness:
  "[''Hello'', '' '', ''World''] \<noteq> [] \<and>
   sum_list (map length [''Hello'', '' '', ''World'']) < (2 ^ 31 :: nat) \<and>
   to_string (appends Empty [''Hello'', '' '', ''World'']) = Inr ''Hello World'' \<and>
   sint (size_lc (appends Empty [''Hello'', '' '', ''World''])) = 11"
  using materialization_correct [of "[''Hello'', '' '', ''World'']"] by simp

text \<open>
  Claim C1 as stated fails: one fragment of \<open>2 ^ 31\<close> bytes makes \<open>size()\<close> negative and
  the string constructor throws, and the chain of no fragment has no conversion.
\<close>

theorem materialization_counterexample:
  "to_string (appends Empty [replicate 2147483648 (CHR ''a'')]) = Inl Alloc_error \<and>
   to_string (appends Empty [replicate 2147483648 (CHR ''a'')])
     \<noteq> Inr (concat [replicate 2147483648 (CHR ''a'')]) \<and>
   to_string (appends Empty []) \<noteq> Inr (concat [])"
  by (simp add: appends_def op_plus_def op_plus_call_def string_ctor_def size_lc_total
      total_length_def del: size_lc.simps)

text \<open>
  Claim C2: \<open>size()\<close> equals the sum of the byte lengths of the fragments reachable
  through the tail links. The code at a chain of one fragment of \<open>2 ^ 31\<close> bytes: the sum
  is \<open>2 ^ 31\<close> and \<open>size()\<close> returns \<open>- 2 ^ 31\<close>.
\<close>

theorem size_truncated_at_2G:
  "sint (size_lc (appends Empty [replicate 2147483648 (CHR ''a'')])) = - 2147483648 \<and>
   total_length (appends Empty [replicate 2147483648 (CHR ''a'')]) = 2147483648"
  by (simp add: size_lc_total total_length_appends)

text \<open>
  Claim C3: \<open>(C + f).size() == C.size() + f.length()\<close>. The code at a chain \<open>C\<close> of
  \<open>2 ^ 31 - 1\<close> bytes and the fragment \<open>"b"\<close>: the left side is \<open>- 2 ^ 31\<close> and the right
  side is \<open>2 ^ 31\<close>, as integers and also as the \<open>std::size_t\<close> values that C++ compares.
\<close>

theorem size_additivity_fails_at_int_max:
  "sint (size_lc (op_plus (appends Empty [replicate 2147483647 (CHR ''a'')]) ''b''))
     = - 2147483648 \<and>
   sint (size_lc (appends Empty [replicate 2147483647 (CHR ''a'')])) + int (length ''b'')
     = 2147483648 \<and>
   (scast (size_lc (op_plus (appends Empty [replicate 2147483647 (CHR ''a'')]) ''b'')) :: 64 word)
     \<noteq> scast (size_lc (appends Empty [replicate 2147483647 (CHR ''a'')]))
         + word_of_nat (length ''b'')"
  by (simp add: size_lc_total total_length_appends op_plus_def op_plus_call_def
      total_length_Node del: size_lc.simps)

text \<open>
  Claim C4: after assigning \<open>B\<close> into \<open>A\<close> of the same shape, \<open>A\<close> materializes as \<open>B\<close>
  did. The code at two chains of one fragment: the assignment does not compile.
\<close>

theorem assign_does_not_compile:
  "assign (appends Empty [''a'']) (appends Empty [''b'']) = Inl Ill_formed"
  by (simp add: appends_def op_plus_def op_plus_call_def)

text \<open>
  Claim C5, as amended. The terminal chain's \<open>size()\<close> is 0 and its \<open>save\<close> returns
  the buffer as it was for every iterator; the terminal chain has no conversion to a
  string.
\<close>

theorem terminal_chain_identity:
  "size_lc Empty = 0 \<and> save Empty e buf = Inr buf \<and> to_string Empty = Inl Ill_formed"
  by simp

text \<open>Claim C5 as stated fails: the terminal chain does not materialize to the empty string.\<close>

theorem terminal_chain_no_conversion: "to_string Empty \<noteq> Inr ''''"
  by simp

text \<open>
  Claim C6. For a chain with head \<open>h\<close> and tail \<open>t\<close> and every end iterator \<open>e\<close>,
  \<open>save(e)\<close> copies \<open>h\<close> to \<open>begin = e - h.size()\<close> and then is \<open>t.save(begin)\<close> on the
  buffer so changed. When \<open>[begin, e)\<close> lies inside the buffer the copy puts \<open>h\<close> there and
  changes nothing else; when the whole range of the chain lies inside the buffer the
  content of the tail ends up immediately before \<open>h\<close>.
\<close>

theorem save_node_algorithm:
  "save (Node h t) e buf =
     (case std_copy h (e - int (length h)) buf of
        Inl err \<Rightarrow> Inl err
      | Inr mid \<Rightarrow> save t (e - int (length h)) mid) \<and>
   (int (length h) \<le> e \<and> e \<le> int (length buf) \<longrightarrow>
      std_copy h (e - int (length h)) buf
        = Inr (take (nat e - length h) buf @ h @ drop (nat e) buf)) \<and>
   (int (length h) + int (total_length t) \<le> e \<and> e \<le> int (length buf) \<longrightarrow>
      save (Node h t) e buf
        = Inr (take (nat e - length h - total_length t) buf @ content t @ h @ drop (nat e) buf))"
proof -
  let ?b = "e - int (length h)"
  have step: "save (Node h t) e buf =
     (case std_copy h ?b buf of Inl err \<Rightarrow> Inl err | Inr mid \<Rightarrow> save t ?b mid)"
    by (simp add: Let_def)
  have head: "std_copy h ?b buf = Inr (take (nat e - length h) buf @ h @ drop (nat e) buf)"
    if "int (length h) \<le> e" and "e \<le> int (length buf)"
  proof -
    have nb: "nat ?b = nat e - length h" using that(1) by (simp add: nat_diff_distrib)
    have ne: "nat e - length h + length h = nat e" using that(1) by simp
    show ?thesis using std_copy_in_range [of ?b h buf] that by (simp add: nb ne)
  qed
  have whole: "save (Node h t) e buf
      = Inr (take (nat e - length h - total_length t) buf @ content t @ h @ drop (nat e) buf)"
    if "int (length h) + int (total_length t) \<le> e" and "e \<le> int (length buf)"
    using save_in_range [of "Node h t" e buf] that
    by (simp add: total_length_Node content_Node del: save.simps)
  show ?thesis using step head whole by blast
qed

theorem save_node_algorithm_witness:
  "int (length ''c'') + int (total_length (Node ''ab'' Empty)) \<le> 4 \<and>
   4 \<le> int (length ''xxxxx'') \<and>
   std_copy ''c'' 3 ''xxxxx'' = Inr ''xxxcx'' \<and>
   save (Node ''c'' (Node ''ab'' Empty)) 4 ''xxxxx'' = save (Node ''ab'' Empty) 3 ''xxxcx'' \<and>
   save (Node ''c'' (Node ''ab'' Empty)) 4 ''xxxxx'' = Inr ''xabcx''"
  using save_node_algorithm [of "''c''" "Node ''ab'' Empty" 4 "''xxxxx''"]
  by (simp add: total_length_def content_def)

text \<open>
  Claim C7. Evaluating \<open>C + f\<close> leaves \<open>C\<close> as it was, and the chain it returns has
  the head \<open>f\<close> and a tail equal to \<open>C\<close>.
\<close>

theorem op_plus_preserves_receiver:
  "fst (op_plus_call c f) = c \<and>
   m_head (snd (op_plus_call c f)) = f \<and>
   m_tail (snd (op_plus_call c f)) = c"
  by (simp add: op_plus_call_def)

text \<open>
  Claim C8: \<open>size()\<close> returns a non-negative integer. The code at the chain of two
  fragments of \<open>2 ^ 30\<close> bytes each: \<open>size()\<close> is negative.
\<close>

theorem size_negative_at_2G:
  "sint (size_lc (appends Empty
     [replicate 1073741824 (CHR ''a''), replicate 1073741824 (CHR ''b'')])) < 0"
  by (simp add: size_lc_total total_length_appends)

text \<open>
  Claim C9. Any number of calls of \<open>size()\<close> in a row return the same value each time
  and leave the chain as it was.
\<close>

theorem size_repeatable:
  "fst (size_call c) = c \<and> snd (size_call c) = size_lc c \<and>
   size_calls k c = (c, replicate k (size_lc c))"
proof -
  have "size_calls k c = (c, replicate k (size_lc c))"
    by (induction k) (simp_all add: size_call_eq)
  then show ?thesis by (simp add: size_call_eq)
qed

text \<open>
  Claim C10: \<open>C.save(e)\<close> writes only inside \<open>[e - C.size(), e)\<close>. The code at the chain
  of one fragment of \<open>2 ^ 32\<close> bytes: \<open>size()\<close> returns 0, so the range is empty, and
  \<open>save\<close> at the end of a buffer of \<open>2 ^ 32\<close> bytes overwrites every byte of it.
\<close>

theorem save_writes_outside_reported_range:
  "size_lc (Node (replicate 4294967296 (CHR ''a'')) Empty) = 0 \<and>
   save (Node (replicate 4294967296 (CHR ''a'')) Empty) 4294967296
     (replicate 4294967296 (CHR ''b'')) = Inr (replicate 4294967296 (CHR ''a''))"
proof -
  let ?c = "Node (replicate 4294967296 (CHR ''a'')) Empty"
  have "size_lc ?c = 0"
    by (simp add: size_lc_total total_length_def del: size_lc.simps)
  moreover have "save ?c 4294967296 (replicate 4294967296 (CHR ''b''))
      = Inr (replicate 4294967296 (CHR ''a''))"
    using save_in_range [of ?c 4294967296 "replicate 4294967296 (CHR ''b'')"]
    by (simp add: total_length_def content_def del: save.simps)
  ultimately show ?thesis by simp
qed

end
